theory Spec2Isabelle
  imports Main "HOL-Library.Word"
begin

unbundle bit_operations_syntax

text \<open>
  The file manager API of golem-stack: uploaded content is stored once per checksum and
  size, with a row of metadata in the table \<^verbatim>\<open>files\<close> and a blob in the upload
  directory.  The repository holds the service twice, in TypeScript (example-api, run on
  Bun) and in PHP (ci4-file-api); this is an embedding of the TypeScript service: the
  checksum (utils/checksum.ts), the database service (services/database.ts) and the routes
  for upload, delete and search.
\<close>

section \<open>Bytes and the SHA-256 digest\<close>

text \<open>
  \<^verbatim>\<open>calculateChecksum\<close> (example-api/src/utils/checksum.ts) hands the bytes of its
  argument to the runtime's \<^verbatim>\<open>crypto.subtle.digest("SHA-256", ...)\<close>.  The digest is
  the function of FIPS 180-4, written out here on 32-bit words so that the checksum of a
  concrete upload is a value of the model.
\<close>

type_synonym byte = "8 word"
type_synonym u32 = "32 word"

text \<open>The round constants, four rounds to a row.\<close>

definition K256 :: "u32 list" where
  "K256 =
    [0x428a2f98, 0x71374491, 0xb5c0fbcf, 0xe9b5dba5] @
    [0x3956c25b, 0x59f111f1, 0x923f82a4, 0xab1c5ed5] @
    [0xd807aa98, 0x12835b01, 0x243185be, 0x550c7dc3] @
    [0x72be5d74, 0x80deb1fe, 0x9bdc06a7, 0xc19bf174] @
    [0xe49b69c1, 0xefbe4786, 0x0fc19dc6, 0x240ca1cc] @
    [0x2de92c6f, 0x4a7484aa, 0x5cb0a9dc, 0x76f988da] @
    [0x983e5152, 0xa831c66d, 0xb00327c8, 0xbf597fc7] @
    [0xc6e00bf3, 0xd5a79147, 0x06ca6351, 0x14292967] @
    [0x27b70a85, 0x2e1b2138, 0x4d2c6dfc, 0x53380d13] @
    [0x650a7354, 0x766a0abb, 0x81c2c92e, 0x92722c85] @
    [0xa2bfe8a1, 0xa81a664b, 0xc24b8b70, 0xc76c51a3] @
    [0xd192e819, 0xd6990624, 0xf40e3585, 0x106aa070] @
    [0x19a4c116, 0x1e376c08, 0x2748774c, 0x34b0bcb5] @
    [0x391c0cb3, 0x4ed8aa4a, 0x5b9cca4f, 0x682e6ff3] @
    [0x748f82ee, 0x78a5636f, 0x84c87814, 0x8cc70208] @
    [0x90befffa, 0xa4506ceb, 0xbef9a3f7, 0xc67178f2]"

type_synonym sha_state = "u32 \<times> u32 \<times> u32 \<times> u32 \<times> u32 \<times> u32 \<times> u32 \<times> u32"

definition H256 :: sha_state where
  "H256 = (0x6a09e667, 0xbb67ae85, 0x3c6ef372, 0xa54ff53a,
           0x510e527f, 0x9b05688c, 0x1f83d9ab, 0x5be0cd19)"

definition Ch :: "u32 \<Rightarrow> u32 \<Rightarrow> u32 \<Rightarrow> u32" where
  "Ch x y z = (x AND y) XOR (NOT x AND z)"

definition Maj :: "u32 \<Rightarrow> u32 \<Rightarrow> u32 \<Rightarrow> u32" where
  "Maj x y z = (x AND y) XOR (x AND z) XOR (y AND z)"

definition bsig0 :: "u32 \<Rightarrow> u32" where
  "bsig0 x = word_rotr 2 x XOR word_rotr 13 x XOR word_rotr 22 x"

definition bsig1 :: "u32 \<Rightarrow> u32" where
  "bsig1 x = word_rotr 6 x XOR word_rotr 11 x XOR word_rotr 25 x"

definition ssig0 :: "u32 \<Rightarrow> u32" where
  "ssig0 x = word_rotr 7 x XOR word_rotr 18 x XOR drop_bit 3 x"

definition ssig1 :: "u32 \<Rightarrow> u32" where
  "ssig1 x = word_rotr 17 x XOR word_rotr 19 x XOR drop_bit 10 x"

definition word_of_bytes :: "byte \<Rightarrow> byte \<Rightarrow> byte \<Rightarrow> byte \<Rightarrow> u32" where
  "word_of_bytes a b c d =
     push_bit 24 (ucast a) OR push_bit 16 (ucast b) OR push_bit 8 (ucast c) OR ucast d"

definition bytes_of_word :: "u32 \<Rightarrow> byte list" where
  "bytes_of_word w = [ucast (drop_bit 24 w), ucast (drop_bit 16 w), ucast (drop_bit 8 w), ucast w]"

definition bytes_of_len :: "64 word \<Rightarrow> byte list" where
  "bytes_of_len n = bytes_of_word (ucast (drop_bit 32 n)) @ bytes_of_word (ucast n)"

fun words_of_bytes :: "byte list \<Rightarrow> u32 list" where
  "words_of_bytes (a # b # c # d # rest) = word_of_bytes a b c d # words_of_bytes rest"
| "words_of_bytes _ = []"

text \<open>Padding: the bit 1, zeros up to 56 modulo 64 bytes, the bit length on 64 bits.\<close>

definition sha_pad :: "byte list \<Rightarrow> byte list" where
  "sha_pad m =
     m @ [0x80] @ replicate ((119 - length m mod 64) mod 64) 0 @ bytes_of_len (of_nat (8 * length m))"

function chunks :: "nat \<Rightarrow> 'a list \<Rightarrow> 'a list list" where
  "chunks n xs = (if n = 0 \<or> xs = [] then [] else take n xs # chunks n (drop n xs))"
  by pat_completeness auto
termination
  by (relation "measure (\<lambda>(n, xs). length xs)") auto

declare chunks.simps [simp del]

fun schedule :: "nat \<Rightarrow> u32 list \<Rightarrow> u32 list" where
  "schedule 0 w = w"
| "schedule (Suc n) w =
     schedule n (w @ [ssig1 (w ! (length w - 2)) + w ! (length w - 7)
                      + ssig0 (w ! (length w - 15)) + w ! (length w - 16)])"

definition sha_round :: "sha_state \<Rightarrow> u32 \<times> u32 \<Rightarrow> sha_state" where
  "sha_round s kw =
     (case s of (a, b, c, d, e, f, g, h) \<Rightarrow>
        let t1 = h + bsig1 e + Ch e f g + fst kw + snd kw;
            t2 = bsig0 a + Maj a b c
        in (t1 + t2, a, b, c, d + t1, e, f, g))"

definition add_state :: "sha_state \<Rightarrow> sha_state \<Rightarrow> sha_state" where
  "add_state s t =
     (case s of (a, b, c, d, e, f, g, h) \<Rightarrow>
      case t of (a', b', c', d', e', f', g', h') \<Rightarrow>
        (a + a', b + b', c + c', d + d', e + e', f + f', g + g', h + h'))"

definition process_block :: "sha_state \<Rightarrow> byte list \<Rightarrow> sha_state" where
  "process_block s block =
     add_state s (foldl sha_round s (zip K256 (schedule 48 (words_of_bytes block))))"

definition bytes_of_state :: "sha_state \<Rightarrow> byte list" where
  "bytes_of_state s =
     (case s of (a, b, c, d, e, f, g, h) \<Rightarrow>
        bytes_of_word a @ bytes_of_word b @ bytes_of_word c @ bytes_of_word d @
        bytes_of_word e @ bytes_of_word f @ bytes_of_word g @ bytes_of_word h)"

definition sha256 :: "byte list \<Rightarrow> byte list" where
  "sha256 m = bytes_of_state (foldl process_block H256 (chunks 64 (sha_pad m)))"

section \<open>The checksum of an upload\<close>

text \<open>
  \<^verbatim>\<open>hashArray.map((b) => b.toString(16).padStart(2, "0")).join("")\<close>:
  JavaScript's \<^verbatim>\<open>toString(16)\<close> writes a non-negative integer in lowercase
  hexadecimal without leading zeros, \<^verbatim>\<open>padStart\<close> fills up from the left.
\<close>

definition hex_digit :: "nat \<Rightarrow> char" where
  "hex_digit d = ''0123456789abcdef'' ! (d mod 16)"

fun toString16 :: "nat \<Rightarrow> string" where
  "toString16 n =
     (if n < 16 then [hex_digit n] else toString16 (n div 16) @ [hex_digit (n mod 16)])"

declare toString16.simps [simp del]

definition padStart :: "nat \<Rightarrow> char \<Rightarrow> string \<Rightarrow> string" where
  "padStart n c s = replicate (n - length s) c @ s"

definition hex_of_bytes :: "byte list \<Rightarrow> string" where
  "hex_of_bytes bs = concat (map (\<lambda>b. padStart 2 (CHR ''0'') (toString16 (unat b))) bs)"

text \<open>
  The argument of \<^verbatim>\<open>calculateChecksum\<close> is declared
  \<^verbatim>\<open>File | Blob | Buffer | ArrayBuffer\<close>, and a \<^verbatim>\<open>File\<close> is a \<^verbatim>\<open>Blob\<close>; at
  run time the upload route can also pass a value of any other kind (a form field that is
  a string), which is the last constructor.  The embedding is of the Bun runtime, where the
  globals \<^verbatim>\<open>Buffer\<close> and \<^verbatim>\<open>Blob\<close> are defined.
\<close>

datatype checksum_input =
    Buffer "byte list"
  | ArrayBuffer "byte list"
  | Blob "byte list"
  | NotBinary

datatype error = TypeError string

definition unsupported :: error where
  "unsupported = TypeError ''Unsupported file type for checksum calculation''"

definition arrayBuffer :: "checksum_input \<Rightarrow> error + byte list" where
  "arrayBuffer file =
     (case file of
        Buffer bs \<Rightarrow> Inr bs
      | ArrayBuffer bs \<Rightarrow> Inr bs
      | Blob bs \<Rightarrow> Inr bs
      | NotBinary \<Rightarrow> Inl unsupported)"

definition calculateChecksum :: "checksum_input \<Rightarrow> error + string" where
  "calculateChecksum file =
     (case arrayBuffer file of
        Inl e \<Rightarrow> Inl e
      | Inr bs \<Rightarrow> Inr (hex_of_bytes (sha256 bs)))"

section \<open>The metadata store\<close>

text \<open>
  A row of the table \<^verbatim>\<open>files\<close> (interface \<^verbatim>\<open>FileRecord\<close> of
  example-api/src/services/database.ts).  The columns \<^verbatim>\<open>id\<close> and \<^verbatim>\<open>size\<close> are
  the fields \<open>file_id\<close> and \<open>file_size\<close>; timestamps are points on an integer
  time line.
\<close>

record FileRecord =
  file_id :: string
  filename :: string
  original_name :: string
  file_size :: int
  mime_type :: string
  checksum :: string
  uploaded_at :: int
  uploaded_by :: string
  uploaded_instance :: string
  created_at :: int
  updated_at :: int

text \<open>The interface \<^verbatim>\<open>FileInsert\<close>; \<^verbatim>\<open>uploaded_by\<close> is optional.\<close>

record FileInsert =
  new_filename :: string
  new_original_name :: string
  new_size :: int
  new_mime_type :: string
  new_checksum :: string
  new_uploaded_by :: "string option"
  new_uploaded_instance :: string

text \<open>
  The table is the list of its rows in insertion order.  What one request reads from
  outside the program is collected in a record: the clock and the identifier generator of
  the database, the clock and the random suffix of the route, the instance name, and which
  of the calls to the outside fail.
\<close>

type_synonym files_table = "FileRecord list"

datatype db_call = InsertFile | GetFileByOriginalName | DeleteFile | SearchFiles

datatype rm_outcome = Removed | ExitNonZero | SpawnThrows

record env =
  now :: int
  gen_random_uuid :: string
  date_now :: nat
  random_id :: string
  instanceId :: string
  db_fails :: "db_call \<Rightarrow> bool"
  write_fails :: bool
  rm_result :: rm_outcome

datatype db_error =
    StringTooLong
  | NumericOutOfRange
  | CheckViolation string
  | UniqueViolation string

text \<open>
  Storing into a \<^verbatim>\<open>VARCHAR(n)\<close> column: a longer string is an error unless the
  excess is spaces, which are cut off.
\<close>

definition varchar :: "nat \<Rightarrow> string \<Rightarrow> string option" where
  "varchar n s =
     (if length s \<le> n then Some s
      else if list_all (\<lambda>c. c = CHR '' '') (drop n s) then Some (take n s)
      else None)"

definition same_content :: "string \<Rightarrow> int \<Rightarrow> FileRecord \<Rightarrow> bool" where
  "same_content c n r \<longleftrightarrow> checksum r = c \<and> file_size r = n"

text \<open>
  The \<^verbatim>\<open>INSERT ... RETURNING *\<close> of \<^verbatim>\<open>insertFile\<close> against the schema of
  \<^verbatim>\<open>runMigrations\<close>: column widths, \<^verbatim>\<open>BIGINT\<close>, \<^verbatim>\<open>CHECK (size > 0)\<close>, the
  primary key, \<^verbatim>\<open>filename ... UNIQUE\<close> and the unique index on
  \<^verbatim>\<open>(checksum, size)\<close>; the defaults fill \<^verbatim>\<open>id\<close> and the three timestamps.
\<close>

definition insert_row :: "env \<Rightarrow> files_table \<Rightarrow> FileInsert \<Rightarrow> db_error + FileRecord" where
  "insert_row e tbl d =
     (case (varchar 255 (new_filename d), varchar 255 (new_original_name d),
            varchar 100 (new_mime_type d), varchar 64 (new_checksum d),
            varchar 100 (case new_uploaded_by d of
                           None \<Rightarrow> ''api-user''
                         | Some u \<Rightarrow> if u = [] then ''api-user'' else u),
            varchar 50 (new_uploaded_instance d)) of
        (Some fn, Some orig, Some mt, Some cs, Some by, Some inst) \<Rightarrow>
          if new_size d < - (2 ^ 63) \<or> 2 ^ 63 \<le> new_size d then Inl NumericOutOfRange
          else if \<not> 0 < new_size d then Inl (CheckViolation ''files_size_check'')
          else if list_ex (\<lambda>r. file_id r = gen_random_uuid e) tbl
            then Inl (UniqueViolation ''files_pkey'')
          else if list_ex (\<lambda>r. filename r = fn) tbl
            then Inl (UniqueViolation ''files_filename_key'')
          else if list_ex (same_content cs (new_size d)) tbl
            then Inl (UniqueViolation ''idx_files_checksum_size'')
          else Inr \<lparr> file_id = gen_random_uuid e, filename = fn, original_name = orig,
                     file_size = new_size d, mime_type = mt, checksum = cs,
                     uploaded_at = now e, uploaded_by = by, uploaded_instance = inst,
                     created_at = now e, updated_at = now e \<rparr>
      | _ \<Rightarrow> Inl StringTooLong)"

text \<open>
  \<^verbatim>\<open>DatabaseService.insertFile\<close>.  The transaction selects the rows with the
  candidate's checksum and size \<^verbatim>\<open>FOR UPDATE\<close>.  If there are any, it returns the
  first of them, or \<^verbatim>\<open>null\<close> when that row's \<^verbatim>\<open>id\<close> or \<^verbatim>\<open>filename\<close> is
  empty.  Otherwise it inserts; an error of the insert (or of the connection) rolls the
  transaction back and the \<^verbatim>\<open>catch\<close> returns \<^verbatim>\<open>null\<close>.

  An empty selection locks nothing, so between the \<^verbatim>\<open>SELECT\<close> and the
  \<^verbatim>\<open>INSERT\<close> other transactions can commit: \<open>others\<close> is what they do to the
  table in that window.
\<close>

definition insertFile_among ::
  "(files_table \<Rightarrow> files_table) \<Rightarrow> env \<Rightarrow> files_table \<Rightarrow> FileInsert
     \<Rightarrow> files_table \<times> FileRecord option" where
  "insertFile_among others e tbl fileData =
     (if db_fails e InsertFile then (tbl, None)
      else
        case filter (same_content (new_checksum fileData) (new_size fileData)) tbl of
          existingFile # _ \<Rightarrow>
            if file_id existingFile \<noteq> [] \<and> filename existingFile \<noteq> []
            then (tbl, Some existingFile)
            else (tbl, None)
        | [] \<Rightarrow>
            (case insert_row e (others tbl) fileData of
               Inl err \<Rightarrow> (others tbl, None)
             | Inr newFile \<Rightarrow> (others tbl @ [newFile], Some newFile)))"

text \<open>With no other transaction in the window.\<close>

definition insertFile :: "env \<Rightarrow> files_table \<Rightarrow> FileInsert \<Rightarrow> files_table \<times> FileRecord option" where
  "insertFile = insertFile_among (\<lambda>tbl. tbl)"

text \<open>
  \<^verbatim>\<open>ORDER BY uploaded_at DESC\<close>: rows with equal time stamps keep the order of the
  table.
\<close>

definition newest_first :: "files_table \<Rightarrow> files_table" where
  "newest_first tbl = sort_key (\<lambda>r. - uploaded_at r) tbl"

definition getFileByOriginalName :: "env \<Rightarrow> files_table \<Rightarrow> string \<Rightarrow> FileRecord option" where
  "getFileByOriginalName e tbl originalName =
     (if db_fails e GetFileByOriginalName then None
      else case newest_first (filter (\<lambda>r. original_name r = originalName) tbl) of
             [] \<Rightarrow> None
           | file # _ \<Rightarrow> Some file)"

text \<open>
  \<^verbatim>\<open>DatabaseService.deleteFile\<close>: the transaction selects the rows of that
  \<^verbatim>\<open>original_name\<close>, throws when there is none, and otherwise runs
  \<^verbatim>\<open>DELETE FROM files WHERE original_name = ...\<close>; the result is whether the
  statement's row count is positive, and \<^verbatim>\<open>false\<close> after any error.
\<close>

definition deleteFile :: "env \<Rightarrow> files_table \<Rightarrow> string \<Rightarrow> files_table \<times> bool" where
  "deleteFile e tbl originalName =
     (if db_fails e DeleteFile then (tbl, False)
      else case filter (\<lambda>r. original_name r = originalName) tbl of
             [] \<Rightarrow> (tbl, False)
           | file # _ \<Rightarrow>
               (let kept = filter (\<lambda>r. original_name r \<noteq> originalName) tbl
                in (kept, 0 < length tbl - length kept)))"

subsection \<open>Search\<close>

text \<open>
  \<^verbatim>\<open>ILIKE\<close>: \<^verbatim>\<open>%\<close> stands for any string, \<^verbatim>\<open>_\<close> for any character, a backslash
  takes the next character literally, and letters match without regard to case (here: the
  letters of ASCII).  A pattern that ends in a lone backslash is an error of the query; the
  patterns of \<^verbatim>\<open>searchFiles\<close> end in \<^verbatim>\<open>%\<close>.
\<close>

fun like :: "string \<Rightarrow> string \<Rightarrow> bool" where
  "like s [] = (s = [])"
| "like s (p # ps) =
     (if p = CHR ''%'' then
        like s ps \<or> (case s of [] \<Rightarrow> False | c # s' \<Rightarrow> like s' (p # ps))
      else if p = CHR ''_'' then
        (case s of [] \<Rightarrow> False | c # s' \<Rightarrow> like s' ps)
      else if p = CHR 0x5C then
        (case ps of
           [] \<Rightarrow> False
         | q # qs \<Rightarrow> (case s of [] \<Rightarrow> False | c # s' \<Rightarrow> c = q \<and> like s' qs))
      else
        (case s of [] \<Rightarrow> False | c # s' \<Rightarrow> c = p \<and> like s' ps))"

definition lower :: "char \<Rightarrow> char" where
  "lower c =
     (case map_of (zip ''ABCDEFGHIJKLMNOPQRSTUVWXYZ'' ''abcdefghijklmnopqrstuvwxyz'') c of
        None \<Rightarrow> c
      | Some l \<Rightarrow> l)"

definition ilike :: "string \<Rightarrow> string \<Rightarrow> bool" where
  "ilike s p = like (map lower s) (map lower p)"

definition matches_query :: "string \<Rightarrow> FileRecord \<Rightarrow> bool" where
  "matches_query query r \<longleftrightarrow>
     ilike (original_name r) (''%'' @ query @ ''%'') \<or> ilike (mime_type r) (''%'' @ query @ ''%'')"

text \<open>\<^verbatim>\<open>searchFiles(query, limit = 50)\<close>; the route passes no limit.\<close>

definition searchFiles :: "env \<Rightarrow> files_table \<Rightarrow> string \<Rightarrow> nat option \<Rightarrow> files_table" where
  "searchFiles e tbl query lim =
     (if db_fails e SearchFiles then []
      else take (case lim of None \<Rightarrow> 50 | Some n \<Rightarrow> n)
             (newest_first (filter (matches_query query) tbl)))"

section \<open>The routes\<close>

text \<open>
  The routes of the file API (\<^verbatim>\<open>files.post("/")\<close>, \<^verbatim>\<open>files.delete("/:filename")\<close>
  and \<^verbatim>\<open>files.get("/search")\<close>).  A response is the status and the JSON body of
  \<^verbatim>\<open>c.json\<close>; a time stamp in a body is the \<^verbatim>\<open>Date\<close> that is serialised.
  The state is the table, the upload directory as a map from path to content, and the
  number of digests computed so far.  The Prometheus counters and the refresh of the
  storage gauge read the stores and change neither them nor a response; they are left out.
\<close>

datatype json =
    JNull
  | JBool bool
  | JNumber int
  | JString string
  | JDate int
  | JArray "json list"
  | JObject "(string \<times> json) list"

record response =
  status :: nat
  body :: json

definition error_response :: "string \<Rightarrow> nat \<Rightarrow> response" where
  "error_response msg code = \<lparr> status = code, body = JObject [(''error'', JString msg)] \<rparr>"

record upload =
  file_name :: string
  file_type :: string
  file_bytes :: "byte list"

text \<open>
  The value of \<^verbatim>\<open>formData.get("file")\<close> is a file, a string or \<^verbatim>\<open>null\<close>.
\<close>

datatype form_value = FormFile upload | FormString string

record state =
  files :: files_table
  uploads :: "string \<rightharpoonup> byte list"
  digests :: nat

definition maxSize :: int where
  "maxSize = 100 * 1024 * 1024"

definition file_length :: "upload \<Rightarrow> int" where
  "file_length file = int (length (file_bytes file))"

text \<open>
  The storage name \<^verbatim>\<open>`${timestamp}_${randomId}_${file.name}`\<close>: the template
  writes \<^verbatim>\<open>Date.now()\<close> in decimal (the first ten of the digits above).
\<close>

fun toString10 :: "nat \<Rightarrow> string" where
  "toString10 n =
     (if n < 10 then [hex_digit n] else toString10 (n div 10) @ [hex_digit (n mod 10)])"

declare toString10.simps [simp del]

definition storage_name :: "env \<Rightarrow> upload \<Rightarrow> string" where
  "storage_name e file = toString10 (date_now e) @ ''_'' @ random_id e @ ''_'' @ file_name file"

definition candidate :: "env \<Rightarrow> upload \<Rightarrow> string \<Rightarrow> FileInsert" where
  "candidate e file hash =
     \<lparr> new_filename = storage_name e file,
       new_original_name = file_name file,
       new_size = file_length file,
       new_mime_type = (if file_type file = [] then ''application/octet-stream'' else file_type file),
       new_checksum = hash,
       new_uploaded_by = Some ''api-user'',
       new_uploaded_instance = instanceId e \<rparr>"

definition uploaded_response :: "upload \<Rightarrow> string \<Rightarrow> FileRecord \<Rightarrow> response" where
  "uploaded_response file hash fileRecord =
     \<lparr> status = 201,
       body = JObject
         [(''message'', JString ''File uploaded successfully''),
          (''id'', JString (file_id fileRecord)),
          (''filename'', JString (file_name file)),
          (''size'', JNumber (file_length file)),
          (''type'', JString (file_type file)),
          (''checksum'', JString hash),
          (''uploadedAt'', JDate (uploaded_at fileRecord))] \<rparr>"

text \<open>
  The upload route.  A missing field or an empty string is answered 400.  A non-empty
  string has no \<^verbatim>\<open>size\<close>, so the size test is false and \<^verbatim>\<open>calculateChecksum\<close>
  throws, which the outer \<^verbatim>\<open>catch\<close> answers 500.  For a file: the size test, the
  checksum, \<^verbatim>\<open>insertFile\<close> (409 on \<^verbatim>\<open>null\<close>), \<^verbatim>\<open>Bun.write\<close> to the fresh path
  and, when the write throws, \<^verbatim>\<open>deleteFile(file.name)\<close>, whose result is not read.
\<close>

definition post_files_among ::
  "(files_table \<Rightarrow> files_table) \<Rightarrow> env \<Rightarrow> state \<Rightarrow> form_value option \<Rightarrow> state \<times> response" where
  "post_files_among others e st field =
     (case field of
        None \<Rightarrow> (st, error_response ''No file provided'' 400)
      | Some (FormString s) \<Rightarrow>
          if s = [] then (st, error_response ''No file provided'' 400)
          else (case calculateChecksum NotBinary of
                  Inl err \<Rightarrow> (st, error_response ''Failed to upload file'' 500)
                | Inr hash \<Rightarrow> (st, error_response ''Failed to upload file'' 500))
      | Some (FormFile file) \<Rightarrow>
          if file_length file > maxSize
          then (st, error_response ''File too large (max 100MB)'' 413)
          else
            (case calculateChecksum (Blob (file_bytes file)) of
               Inl err \<Rightarrow> (st, error_response ''Failed to upload file'' 500)
             | Inr hash \<Rightarrow>
                 (let st1 = st \<lparr> digests := digests st + 1 \<rparr>;
                      filepath = ''./uploads/'' @ storage_name e file
                  in case insertFile_among others e (files st) (candidate e file hash) of
                       (tbl, None) \<Rightarrow>
                         (st1 \<lparr> files := tbl \<rparr>,
                          error_response ''Failed to save file metadata or duplicate detected'' 409)
                     | (tbl, Some fileRecord) \<Rightarrow>
                         if write_fails e
                         then (st1 \<lparr> files := fst (deleteFile e tbl (file_name file)) \<rparr>,
                               error_response ''Failed to save file to disk'' 500)
                         else (st1 \<lparr> files := tbl,
                                     uploads := (uploads st)(filepath \<mapsto> file_bytes file) \<rparr>,
                               uploaded_response file hash fileRecord))))"

definition post_files :: "env \<Rightarrow> state \<Rightarrow> form_value option \<Rightarrow> state \<times> response" where
  "post_files = post_files_among (\<lambda>tbl. tbl)"

text \<open>
  The delete route: the newest row of that name gives the path; \<^verbatim>\<open>deleteFile\<close>
  removes from the table; \<^verbatim>\<open>rm\<close> is spawned on the path, and neither its failing
  to start nor its exit status changes the answer.
\<close>

definition delete_files :: "env \<Rightarrow> state \<Rightarrow> string \<Rightarrow> state \<times> response" where
  "delete_files e st requestedFilename =
     (case getFileByOriginalName e (files st) requestedFilename of
        None \<Rightarrow> (st, error_response ''File not found'' 404)
      | Some fileRecord \<Rightarrow>
          (let filepath = ''./uploads/'' @ filename fileRecord
           in case deleteFile e (files st) requestedFilename of
                (tbl, False) \<Rightarrow>
                  (st \<lparr> files := tbl \<rparr>, error_response ''Failed to delete file metadata'' 500)
              | (tbl, True) \<Rightarrow>
                  (st \<lparr> files := tbl,
                        uploads := (case rm_result e of
                                      Removed \<Rightarrow> (uploads st)(filepath := None)
                                    | ExitNonZero \<Rightarrow> uploads st
                                    | SpawnThrows \<Rightarrow> uploads st) \<rparr>,
                   \<lparr> status = 200,
                     body = JObject [(''message'', JString ''File deleted successfully''),
                                     (''filename'', JString requestedFilename)] \<rparr>)))"

definition search_entry :: "FileRecord \<Rightarrow> json" where
  "search_entry file =
     JObject [(''id'', JString (file_id file)),
              (''filename'', JString (original_name file)),
              (''size'', JNumber (file_size file)),
              (''type'', JString (mime_type file)),
              (''uploadedAt'', JDate (uploaded_at file)),
              (''instance'', JString (uploaded_instance file))]"

definition get_search :: "env \<Rightarrow> state \<Rightarrow> string option \<Rightarrow> response" where
  "get_search e st q =
     (case q of
        None \<Rightarrow> error_response ''Search query required'' 400
      | Some query \<Rightarrow>
          if query = [] then error_response ''Search query required'' 400
          else (let found = searchFiles e (files st) query None
                in \<lparr> status = 200,
                     body = JObject [(''files'', JArray (map search_entry found)),
                                     (''count'', JNumber (int (length found))),
                                     (''query'', JString query)] \<rparr>))"

text \<open>The field of a JSON object under a key, as a client reads it.\<close>

definition json_field :: "json \<Rightarrow> string \<Rightarrow> json option" where
  "json_field j k = (case j of JObject kvs \<Rightarrow> map_of kvs k | _ \<Rightarrow> None)"

section \<open>Invariants of the table\<close>

text \<open>
  \<^verbatim>\<open>CREATE UNIQUE INDEX idx_files_checksum_size ON files(checksum, size)\<close>: no two
  rows of the table agree on checksum and size.
\<close>

definition unique_content :: "files_table \<Rightarrow> bool" where
  "unique_content tbl \<longleftrightarrow> distinct (map (\<lambda>r. (checksum r, file_size r)) tbl)"

text \<open>
  Every row has an \<^verbatim>\<open>id\<close> and a \<^verbatim>\<open>filename\<close> that are not empty: what
  \<^verbatim>\<open>insertFile\<close> asks of a row before it returns it as an existing file.
\<close>

definition rows_named :: "files_table \<Rightarrow> bool" where
  "rows_named tbl \<longleftrightarrow> list_all (\<lambda>r. file_id r \<noteq> [] \<and> filename r \<noteq> []) tbl"

section \<open>Example requests\<close>

text \<open>
  Two instances, two uploads of the five bytes of \<^verbatim>\<open>hello\<close> under different names, an
  upload of the two bytes of \<^verbatim>\<open>hi\<close> under the first name, and the rows and states
  that the routes make of them.
\<close>

definition hello :: "byte list" where
  "hello = [0x68, 0x65, 0x6c, 0x6c, 0x6f]"

definition hi :: "byte list" where
  "hi = [0x68, 0x69]"

definition env_a :: env where
  "env_a = \<lparr> now = 1000, gen_random_uuid = ''0b0e7f0a-5d2c-4c56-9f4e-3a1d2b7c8e01'',
              date_now = 1700000000000, random_id = ''k3x9qa'', instanceId = ''app1'',
              db_fails = (\<lambda>c. False), write_fails = False, rm_result = Removed \<rparr>"

definition env_b :: env where
  "env_b = \<lparr> now = 2000, gen_random_uuid = ''6a1f0c9d-8b3e-4f7a-b2c5-9e0d1a2b3c02'',
              date_now = 1700000000500, random_id = ''zz11aa'', instanceId = ''app2'',
              db_fails = (\<lambda>c. False), write_fails = False, rm_result = Removed \<rparr>"

definition a_hello :: upload where
  "a_hello = \<lparr> file_name = ''a.txt'', file_type = ''text/plain'', file_bytes = hello \<rparr>"

definition b_hello :: upload where
  "b_hello = \<lparr> file_name = ''b.txt'', file_type = ''text/plain'', file_bytes = hello \<rparr>"

definition a_hi :: upload where
  "a_hi = \<lparr> file_name = ''a.txt'', file_type = ''text/plain'', file_bytes = hi \<rparr>"

definition row_a_hello :: FileRecord where
  "row_a_hello =
     \<lparr> file_id = ''0b0e7f0a-5d2c-4c56-9f4e-3a1d2b7c8e01'',
       filename = ''1700000000000_k3x9qa_a.txt'', original_name = ''a.txt'', file_size = 5,
       mime_type = ''text/plain'', checksum = hex_of_bytes (sha256 hello),
       uploaded_at = 1000, uploaded_by = ''api-user'', uploaded_instance = ''app1'',
       created_at = 1000, updated_at = 1000 \<rparr>"

definition row_a_hi :: FileRecord where
  "row_a_hi =
     \<lparr> file_id = ''6a1f0c9d-8b3e-4f7a-b2c5-9e0d1a2b3c02'',
       filename = ''1700000000500_zz11aa_a.txt'', original_name = ''a.txt'', file_size = 2,
       mime_type = ''text/plain'', checksum = hex_of_bytes (sha256 hi),
       uploaded_at = 2000, uploaded_by = ''api-user'', uploaded_instance = ''app2'',
       created_at = 2000, updated_at = 2000 \<rparr>"

definition empty_state :: state where
  "empty_state = \<lparr> files = [], uploads = Map.empty, digests = 0 \<rparr>"

definition state_a :: state where
  "state_a = \<lparr> files = [row_a_hello],
                uploads = [''./uploads/1700000000000_k3x9qa_a.txt'' \<mapsto> hello],
                digests = 1 \<rparr>"

definition state_aa :: state where
  "state_aa = \<lparr> files = [row_a_hello, row_a_hi],
                 uploads = [''./uploads/1700000000000_k3x9qa_a.txt'' \<mapsto> hello,
                            ''./uploads/1700000000500_zz11aa_a.txt'' \<mapsto> hi],
                 digests = 2 \<rparr>"

text \<open>Fifty-one rows of the name \<^verbatim>\<open>a.txt\<close>, of different sizes and times.\<close>

definition fifty_one_rows :: files_table where
  "fifty_one_rows =
     map (\<lambda>i. row_a_hello \<lparr> file_id := toString10 i, filename := toString10 i @ ''_k3x9qa_a.txt'',
                              file_size := 1 + int i, uploaded_at := int i \<rparr>) [0..<51]"

text \<open>
  The first instance with a disk that refuses the write, and the same with a database that
  refuses the delete as well.
\<close>

definition env_disk_fails :: env where
  "env_disk_fails = env_a \<lparr> write_fails := True \<rparr>"

definition env_b_disk_fails :: env where
  "env_b_disk_fails = env_b \<lparr> write_fails := True \<rparr>"

definition env_disk_and_delete_fail :: env where
  "env_disk_and_delete_fail = env_a \<lparr> write_fails := True, db_fails := (\<lambda>c. c = DeleteFile) \<rparr>"

text \<open>
  Another instance commits the row of \<^verbatim>\<open>a.txt\<close> while a transaction is between
  its \<^verbatim>\<open>SELECT\<close> and its \<^verbatim>\<open>INSERT\<close>.
\<close>

definition winner_commits :: "files_table \<Rightarrow> files_table" where
  "winner_commits tbl = tbl @ [row_a_hello]"

section \<open>Properties of the checksum\<close>

lemma length_sha256: "length (sha256 m) = 32"
  by (simp add: sha256_def bytes_of_state_def bytes_of_word_def split: prod.splits)

lemma hex_digit_range: "d < 16 \<Longrightarrow> hex_digit d \<in> set ''0123456789abcdef''"
proof -
  assume "d < 16"
  then have "d \<in> set [0..<16]" by simp
  then have "d \<in> {0,1,2,3,4,5,6,7,8,9,10,11,12,13,14,15}"
    by (simp add: upt_rec numeral_eq_Suc) 
  then show ?thesis
    by (auto simp: hex_digit_def)
qed

lemma toString16_byte:
  assumes "n < 256"
  shows "padStart 2 (CHR ''0'') (toString16 n) = [hex_digit (n div 16), hex_digit (n mod 16)]"
proof (cases "n < 16")
  case True
  then show ?thesis by (simp add: toString16.simps padStart_def hex_digit_def)
next
  case False
  with assms have "n div 16 < 16" by simp
  with False show ?thesis
    by (simp add: toString16.simps [of n] toString16.simps [of "n div 16"] padStart_def)
qed

lemma hex_of_bytes_Cons:
  "hex_of_bytes (b # bs) = hex_digit (unat b div 16) # hex_digit (unat b mod 16) # hex_of_bytes bs"
proof -
  have "unat b < 256" using unsigned_less [of b, where 'a = nat] by simp
  then show ?thesis by (simp add: hex_of_bytes_def toString16_byte)
qed

lemma length_hex_of_bytes: "length (hex_of_bytes bs) = 2 * length bs"
  by (induction bs) (simp_all add: hex_of_bytes_Cons, simp add: hex_of_bytes_def)

lemma set_hex_of_bytes: "set (hex_of_bytes bs) \<subseteq> set ''0123456789abcdef''"
proof (induction bs)
  case Nil
  then show ?case by (simp add: hex_of_bytes_def)
next
  case (Cons b bs)
  have b: "unat b < 256" using unsigned_less [of b, where 'a = nat] by simp
  have h1: "hex_digit (unat b div 16) \<in> set ''0123456789abcdef''"
    using b by (intro hex_digit_range) simp
  have h2: "hex_digit (unat b mod 16) \<in> set ''0123456789abcdef''"
    by (intro hex_digit_range) simp
  have "set (hex_of_bytes (b # bs)) =
          insert (hex_digit (unat b div 16)) (insert (hex_digit (unat b mod 16)) (set (hex_of_bytes bs)))"
    by (simp add: hex_of_bytes_Cons)
  then show ?case
    using h1 h2 Cons.IH by (simp only: insert_subset simp_thms)
qed

text \<open>
  The digest on the example of FIPS 180-4 (the three bytes of \<^verbatim>\<open>abc\<close>) and on the
  bytes of \<^verbatim>\<open>hello\<close>.
\<close>

lemma sha256_abc:
  "hex_of_bytes (sha256 [0x61, 0x62, 0x63]) =
     ''ba7816bf8f01cfea414140de5dae2223b00361a396177a9cb410ff61f20015ad''"
  by code_simp

lemma sha256_hello:
  "hex_of_bytes (sha256 hello) =
     ''2cf24dba5fb0a30e26e83b2ac5b9e29e1b161e5c1fa7425e73043362938b9824''"
  by code_simp

text \<open>
  Claim C9.  For an input that is a \<^verbatim>\<open>Buffer\<close>, an \<^verbatim>\<open>ArrayBuffer\<close> or a
  \<^verbatim>\<open>Blob\<close>, \<^verbatim>\<open>calculateChecksum\<close> returns the SHA-256 digest of the input's
  bytes in hexadecimal: 64 characters, each a digit or a lowercase letter from a to f.
  For an input of any other kind it throws the unsupported-input error, and it throws for
  no other input.
\<close>

theorem calculateChecksum_hex:
  "(file = Buffer bs \<or> file = ArrayBuffer bs \<or> file = Blob bs \<longrightarrow>
      calculateChecksum file = Inr (hex_of_bytes (sha256 bs))
      \<and> length (hex_of_bytes (sha256 bs)) = 64
      \<and> set (hex_of_bytes (sha256 bs)) \<subseteq> set ''0123456789abcdef'')
   \<and> (file = NotBinary \<longrightarrow> calculateChecksum file = Inl unsupported)
   \<and> ((\<exists>err. calculateChecksum file = Inl err) \<longleftrightarrow> file = NotBinary)"
proof -
  have len: "length (hex_of_bytes (sha256 bs)) = 64"
    by (simp add: length_hex_of_bytes length_sha256)
  show ?thesis
    using len set_hex_of_bytes [of "sha256 bs"]
    by (cases "file") (simp_all add: calculateChecksum_def arrayBuffer_def)
qed

theorem calculateChecksum_hex_witness:
  "calculateChecksum (Blob [0x68, 0x69]) = Inr (hex_of_bytes (sha256 [0x68, 0x69]))
   \<and> length (hex_of_bytes (sha256 [0x68, 0x69])) = 64
   \<and> set (hex_of_bytes (sha256 [0x68, 0x69])) \<subseteq> set ''0123456789abcdef''
   \<and> calculateChecksum NotBinary = Inl unsupported"
  using calculateChecksum_hex [of "Blob [0x68, 0x69]" "[0x68, 0x69]"]
        calculateChecksum_hex [of NotBinary "[]"]
  by simp

section \<open>Facts about the metadata store\<close>

lemma filter_unique_key:
  "distinct (map f xs) \<Longrightarrow> x \<in> set xs \<Longrightarrow> filter (\<lambda>y. f y = f x) xs = [x]"
proof (induction xs)
  case Nil
  then show ?case by simp
next
  case (Cons a xs)
  show ?case
  proof (cases "a = x")
    case True
    with Cons.prems have "\<forall>y\<in>set xs. f y \<noteq> f x" by (auto simp: image_iff)
    then have "filter (\<lambda>y. f y = f x) xs = []" by (simp add: filter_empty_conv)
    with True show ?thesis by simp
  next
    case False
    with Cons.prems have x: "x \<in> set xs" and d: "distinct (map f xs)" by auto
    from Cons.prems x have "f a \<noteq> f x" by (auto simp: image_iff)
    with Cons.IH [OF d x] show ?thesis by simp
  qed
qed

lemma filter_same_content:
  assumes "unique_content tbl" "r \<in> set tbl"
  shows "filter (same_content (checksum r) (file_size r)) tbl = [r]"
proof -
  have "same_content (checksum r) (file_size r) =
          (\<lambda>y. (checksum y, file_size y) = (checksum r, file_size r))"
    by (auto simp: same_content_def fun_eq_iff)
  then show ?thesis
    using filter_unique_key [of "\<lambda>r. (checksum r, file_size r)" tbl r] assms
    by (simp add: unique_content_def)
qed

lemma insertFile_among_found:
  assumes "\<not> db_fails e InsertFile"
    and "filter (same_content (new_checksum d) (new_size d)) tbl = r # rest"
    and "file_id r \<noteq> []" and "filename r \<noteq> []"
  shows "insertFile_among others e tbl d = (tbl, Some r)"
  using assms by (simp add: insertFile_among_def)

lemma insert_row_fresh:
  assumes "insert_row e tbl d = Inr r"
  shows "filter (same_content (checksum r) (file_size r)) tbl = []"
  using assms
  by (auto simp: insert_row_def list_ex_iff filter_empty_conv
           split: option.splits if_splits prod.splits)

lemma insertFile_result:
  assumes "insertFile e tbl d = (tbl', Some r)"
  shows "\<exists>rest. filter (same_content (checksum r) (file_size r)) tbl' = r # rest"
proof (cases "filter (same_content (new_checksum d) (new_size d)) tbl")
  case Nil
  with assms obtain "insert_row e tbl d = Inr r" and t: "tbl' = tbl @ [r]"
    by (auto simp: insertFile_def insertFile_among_def split: if_splits sum.splits)
  then have "filter (same_content (checksum r) (file_size r)) tbl = []"
    using insert_row_fresh by blast
  with t show ?thesis by (simp add: same_content_def)
next
  case (Cons x rest)
  with assms have "x = r" and t: "tbl' = tbl"
    by (auto simp: insertFile_def insertFile_among_def split: if_splits)
  moreover from Cons have "x \<in> set (filter (same_content (new_checksum d) (new_size d)) tbl)"
    by simp
  then have "same_content (new_checksum d) (new_size d) x" by simp
  then have "same_content (new_checksum d) (new_size d) = same_content (checksum x) (file_size x)"
    by (auto simp: same_content_def fun_eq_iff)
  ultimately show ?thesis using Cons by simp
qed

lemma length_filter_others:
  assumes "filter P xs \<noteq> []"
  shows "length (filter (\<lambda>x. \<not> P x) xs) < length xs"
proof -
  from assms have "0 < length (filter P xs)" by simp
  then show ?thesis using sum_length_filter_compl [of P xs] by linarith
qed

lemma deleteFile_found:
  assumes "\<not> db_fails e DeleteFile" and "list_ex (\<lambda>r. original_name r = name) tbl"
  shows "deleteFile e tbl name = (filter (\<lambda>r. original_name r \<noteq> name) tbl, True)"
proof -
  from assms(2) have ne: "filter (\<lambda>r. original_name r = name) tbl \<noteq> []"
    by (simp add: list_ex_iff filter_empty_conv)
  then have "length (filter (\<lambda>r. original_name r \<noteq> name) tbl) < length tbl"
    using length_filter_others [of "\<lambda>r. original_name r = name" tbl] by simp
  with ne assms(1) show ?thesis
    by (simp add: deleteFile_def Let_def split: list.splits)
qed

lemma deleteFile_False:
  assumes "\<not> snd (deleteFile e tbl name)"
  shows "fst (deleteFile e tbl name) = tbl"
proof (cases "\<not> db_fails e DeleteFile \<and> list_ex (\<lambda>r. original_name r = name) tbl")
  case True
  with assms show ?thesis by (simp add: deleteFile_found)
next
  case False
  then show ?thesis
    by (auto simp: deleteFile_def list_ex_iff filter_empty_conv split: list.splits)
qed

lemma insert_row_db_fails: "insert_row (e \<lparr> db_fails := f \<rparr>) tbl d = insert_row e tbl d"
  by (simp add: insert_row_def split: option.split prod.split)

lemma deleteFile_True:
  "snd (deleteFile e tbl name) \<Longrightarrow>
     fst (deleteFile e tbl name) = filter (\<lambda>r. original_name r \<noteq> name) tbl"
  by (auto simp: deleteFile_def Let_def split: if_splits list.splits)

lemma insertFile_among_db_fails:
  "\<not> db_fails e InsertFile \<Longrightarrow>
     insertFile_among others (e \<lparr> db_fails := (\<lambda>c. False) \<rparr>) tbl d = insertFile_among others e tbl d"
  by (simp add: insertFile_among_def insert_row_db_fails cong: list.case_cong)

lemma post_files_write_fails:
  assumes "file_length up \<le> maxSize"
    and "insertFile_among others e (files st) (candidate e up (hex_of_bytes (sha256 (file_bytes up))))
           = (tbl, Some r)"
    and "write_fails e"
  shows "post_files_among others e st (Some (FormFile up)) =
           (st \<lparr> digests := digests st + 1, files := fst (deleteFile e tbl (file_name up)) \<rparr>,
            error_response ''Failed to save file to disk'' 500)"
  using assms by (simp add: post_files_among_def calculateChecksum_def arrayBuffer_def)

lemma insertFile_existing:
  assumes "\<not> db_fails e InsertFile"
    and "unique_content tbl" and "r \<in> set tbl"
    and "same_content (new_checksum d) (new_size d) r"
    and "file_id r \<noteq> []" and "filename r \<noteq> []"
  shows "insertFile e tbl d = (tbl, Some r)"
proof -
  from assms(4) have "new_checksum d = checksum r" "new_size d = file_size r"
    by (simp_all add: same_content_def)
  with assms(2,3) have "filter (same_content (new_checksum d) (new_size d)) tbl = [r]"
    using filter_same_content by simp
  with assms show ?thesis
    unfolding insertFile_def by (intro insertFile_among_found) simp_all
qed

lemma newest_first_Nil: "newest_first xs = [] \<longleftrightarrow> xs = []"
  using length_sort [of "\<lambda>r. - uploaded_at r" xs] by (auto simp: newest_first_def simp del: length_sort)

lemma getFileByOriginalName_found:
  assumes "\<not> db_fails e GetFileByOriginalName" and "list_ex (\<lambda>r. original_name r = name) tbl"
  shows "\<exists>r. getFileByOriginalName e tbl name = Some r \<and> r \<in> set tbl \<and> original_name r = name"
proof -
  let ?m = "filter (\<lambda>r. original_name r = name) tbl"
  from assms(2) have "?m \<noteq> []" by (simp add: list_ex_iff filter_empty_conv)
  then have "newest_first ?m \<noteq> []" by (simp add: newest_first_Nil)
  then obtain r rest where nf: "newest_first ?m = r # rest" by (cases "newest_first ?m") auto
  then have "r \<in> set (newest_first ?m)" by simp
  then have "r \<in> set ?m" by (simp add: newest_first_def)
  with nf assms(1) show ?thesis by (simp add: getFileByOriginalName_def)
qed

lemma sorted_newest_first: "sorted (map (\<lambda>r. - uploaded_at r) (newest_first tbl))"
  by (simp add: newest_first_def)

lemma set_newest_first: "set (newest_first tbl) = set tbl"
  by (simp add: newest_first_def)

lemma take_newest:
  assumes "x \<in> set (take n (newest_first tbl))"
    and "y \<in> set tbl" and "y \<notin> set (take n (newest_first tbl))"
  shows "uploaded_at y \<le> uploaded_at x"
proof -
  let ?s = "newest_first tbl"
  have "set ?s = set (take n ?s) \<union> set (drop n ?s)"
    using set_append [of "take n ?s" "drop n ?s"] by simp
  with assms(2,3) have y: "y \<in> set (drop n ?s)" by (simp add: set_newest_first)
  have "sorted (map (\<lambda>r. - uploaded_at r) (take n ?s @ drop n ?s))"
    using sorted_newest_first by simp
  then have "\<forall>a\<in>set (take n ?s). \<forall>b\<in>set (drop n ?s). - uploaded_at a \<le> - uploaded_at b"
    unfolding map_append sorted_append by auto
  with assms(1) y show ?thesis by auto
qed

text \<open>Both invariants hold along the requests.\<close>

lemma unique_content_insertFile:
  assumes "unique_content tbl" and "insertFile e tbl d = (tbl', res)"
  shows "unique_content tbl'"
proof (cases "\<exists>r. tbl' = tbl @ [r] \<and> insert_row e tbl d = Inr r")
  case True
  then obtain r where t: "tbl' = tbl @ [r]" and i: "insert_row e tbl d = Inr r" by blast
  from insert_row_fresh [OF i] have "\<forall>x\<in>set tbl. \<not> same_content (checksum r) (file_size r) x"
    by (simp add: filter_empty_conv)
  then have "(checksum r, file_size r) \<notin> set (map (\<lambda>r. (checksum r, file_size r)) tbl)"
    by (auto simp: same_content_def)
  with assms(1) t show ?thesis by (simp add: unique_content_def)
next
  case False
  with assms(2) have "tbl' = tbl"
    by (auto simp: insertFile_def insertFile_among_def split: if_splits list.splits sum.splits)
  with assms(1) show ?thesis by simp
qed

lemma unique_content_filter: "unique_content tbl \<Longrightarrow> unique_content (filter P tbl)"
  by (simp add: unique_content_def distinct_map_filter)

lemma unique_content_deleteFile:
  "unique_content tbl \<Longrightarrow> unique_content (fst (deleteFile e tbl name))"
  by (auto simp: deleteFile_def Let_def unique_content_filter split: list.splits)

lemma unique_content_post_files:
  assumes "unique_content (files st)"
  shows "unique_content (files (fst (post_files e st field)))"
  using assms
  by (auto simp: post_files_def post_files_among_def insertFile_def [symmetric] Let_def
           split: option.splits form_value.splits sum.splits prod.splits
           dest: unique_content_insertFile [OF assms] intro: unique_content_deleteFile)

lemma unique_content_delete_files:
  assumes "unique_content (files st)"
  shows "unique_content (files (fst (delete_files e st name)))"
  using assms unique_content_deleteFile [OF assms, of e name]
  by (auto simp: delete_files_def Let_def split: option.splits prod.splits bool.splits)

lemma varchar_nonempty: "varchar n s = Some t \<Longrightarrow> s \<noteq> [] \<Longrightarrow> 0 < n \<Longrightarrow> t \<noteq> []"
  by (auto simp: varchar_def split: if_splits)

lemma insert_row_named:
  assumes "insert_row e tbl d = Inr r" and "gen_random_uuid e \<noteq> []" and "new_filename d \<noteq> []"
  shows "file_id r \<noteq> [] \<and> filename r \<noteq> []"
  using assms
  by (auto simp: insert_row_def split: option.splits if_splits dest: varchar_nonempty)

lemma rows_named_insertFile:
  assumes "rows_named tbl" and "insertFile e tbl d = (tbl', res)"
    and "gen_random_uuid e \<noteq> []" and "new_filename d \<noteq> []"
  shows "rows_named tbl'"
proof (cases "\<exists>r. tbl' = tbl @ [r] \<and> insert_row e tbl d = Inr r")
  case True
  then obtain r where t: "tbl' = tbl @ [r]" and i: "insert_row e tbl d = Inr r" by blast
  from insert_row_named [OF i assms(3,4)] assms(1) t show ?thesis
    by (simp add: rows_named_def)
next
  case False
  with assms(2) have "tbl' = tbl"
    by (auto simp: insertFile_def insertFile_among_def split: if_splits list.splits sum.splits)
  with assms(1) show ?thesis by simp
qed

lemma storage_name_nonempty: "storage_name e up \<noteq> []"
  by (simp add: storage_name_def)

lemma rows_named_filter: "rows_named tbl \<Longrightarrow> rows_named (filter P tbl)"
  by (simp add: rows_named_def list_all_iff)

lemma rows_named_deleteFile: "rows_named tbl \<Longrightarrow> rows_named (fst (deleteFile e tbl name))"
  by (auto simp: deleteFile_def Let_def rows_named_filter split: list.splits)

lemma rows_named_post_files:
  assumes "rows_named (files st)" and "gen_random_uuid e \<noteq> []"
  shows "rows_named (files (fst (post_files e st field)))"
proof -
  have ins: "rows_named tbl'" if "insertFile e (files st) (candidate e up h) = (tbl', res)"
    for up h tbl' res
    using rows_named_insertFile [OF assms(1) that assms(2)] storage_name_nonempty [of e up]
    by (simp add: candidate_def)
  show ?thesis
    using assms
    by (auto simp: post_files_def post_files_among_def insertFile_def [symmetric] Let_def
             split: option.splits form_value.splits sum.splits prod.splits
             dest: ins intro: rows_named_deleteFile)
qed

section \<open>The example requests, run\<close>

lemma storage_name_a: "storage_name env_a a_hello = ''1700000000000_k3x9qa_a.txt''"
  by (simp add: storage_name_def env_a_def a_hello_def toString10.simps hex_digit_def)

lemma storage_name_a_hi: "storage_name env_b a_hi = ''1700000000500_zz11aa_a.txt''"
  by (simp add: storage_name_def env_b_def a_hi_def toString10.simps hex_digit_def)

lemma storage_name_b: "storage_name env_b b_hello = ''1700000000500_zz11aa_b.txt''"
  by (simp add: storage_name_def env_b_def b_hello_def toString10.simps hex_digit_def)

lemmas route_defs =
  post_files_def post_files_among_def maxSize_def file_length_def calculateChecksum_def
  arrayBuffer_def insertFile_def insertFile_among_def insert_row_def candidate_def varchar_def
  same_content_def deleteFile_def getFileByOriginalName_def delete_files_def newest_first_def
  error_response_def uploaded_response_def length_hex_of_bytes length_sha256

lemmas example_defs =
  env_a_def env_b_def a_hello_def b_hello_def a_hi_def row_a_hello_def row_a_hi_def
  empty_state_def state_a_def state_aa_def hello_def hi_def

text \<open>
  The two example states are what the upload route makes of the empty stores: first
  \<^verbatim>\<open>a.txt\<close> with the bytes of \<^verbatim>\<open>hello\<close>, then \<^verbatim>\<open>a.txt\<close> again with the bytes of
  \<^verbatim>\<open>hi\<close>.
\<close>

lemma first_upload:
  "post_files env_a empty_state (Some (FormFile a_hello)) =
     (state_a, uploaded_response a_hello (hex_of_bytes (sha256 hello)) row_a_hello)"
  using storage_name_a by (simp add: route_defs example_defs)

lemma second_upload:
  "post_files env_b state_a (Some (FormFile a_hi)) =
     (state_aa, uploaded_response a_hi (hex_of_bytes (sha256 hi)) row_a_hi)"
  using storage_name_a_hi by (simp add: route_defs example_defs)

section \<open>The deduplicating insert\<close>

text \<open>
  Claim C2.  \<^verbatim>\<open>insertFile\<close> is idempotent.  When the database answers and the
  table holds a row with the candidate's checksum and size (the only such row, by the
  unique index) whose \<^verbatim>\<open>id\<close> and \<^verbatim>\<open>filename\<close> are not empty, as those written by
  the upload route are, the call returns that row and leaves the table as it is.  And
  whatever row a call has returned, created or found, a later call with a candidate of that
  row's checksum and size returns the same row and inserts nothing.
\<close>

theorem insertFile_idempotent:
  assumes "\<not> db_fails e InsertFile" and "\<not> db_fails e' InsertFile"
  shows "(unique_content tbl \<and> r \<in> set tbl \<and> same_content (new_checksum d) (new_size d) r
            \<and> file_id r \<noteq> [] \<and> filename r \<noteq> []
          \<longrightarrow> insertFile e tbl d = (tbl, Some r))
       \<and> (insertFile e tbl d = (tbl', Some r') \<and> same_content (new_checksum d') (new_size d') r'
            \<and> file_id r' \<noteq> [] \<and> filename r' \<noteq> []
          \<longrightarrow> insertFile e' tbl' d' = (tbl', Some r'))"
proof (intro conjI impI)
  assume a: "unique_content tbl \<and> r \<in> set tbl \<and> same_content (new_checksum d) (new_size d) r
            \<and> file_id r \<noteq> [] \<and> filename r \<noteq> []"
  then have "new_checksum d = checksum r" "new_size d = file_size r"
    by (simp_all add: same_content_def)
  with a have "filter (same_content (new_checksum d) (new_size d)) tbl = [r]"
    using filter_same_content by simp
  with a assms(1) show "insertFile e tbl d = (tbl, Some r)"
    unfolding insertFile_def by (intro insertFile_among_found) simp_all
next
  assume a: "insertFile e tbl d = (tbl', Some r') \<and> same_content (new_checksum d') (new_size d') r'
            \<and> file_id r' \<noteq> [] \<and> filename r' \<noteq> []"
  then have eq: "new_checksum d' = checksum r'" "new_size d' = file_size r'"
    by (simp_all add: same_content_def)
  from a insertFile_result [of e tbl d tbl' r']
  obtain rest where "filter (same_content (checksum r') (file_size r')) tbl' = r' # rest"
    by auto
  with a eq assms(2) show "insertFile e' tbl' d' = (tbl', Some r')"
    unfolding insertFile_def by (intro insertFile_among_found) simp_all
qed

theorem insertFile_idempotent_witness:
  "insertFile env_a [] (candidate env_a a_hello (hex_of_bytes (sha256 hello)))
     = ([row_a_hello], Some row_a_hello)
   \<and> insertFile env_b [row_a_hello] (candidate env_b b_hello (hex_of_bytes (sha256 hello)))
     = ([row_a_hello], Some row_a_hello)
   \<and> insertFile env_a [row_a_hello] (candidate env_a a_hello (hex_of_bytes (sha256 hello)))
     = ([row_a_hello], Some row_a_hello)"
proof -
  let ?a = "candidate env_a a_hello (hex_of_bytes (sha256 hello))"
  let ?b = "candidate env_b b_hello (hex_of_bytes (sha256 hello))"
  have first: "insertFile env_a [] ?a = ([row_a_hello], Some row_a_hello)"
    using storage_name_a by (simp add: route_defs example_defs)
  have ok: "\<not> db_fails env_a InsertFile" "\<not> db_fails env_b InsertFile"
    by (simp_all add: env_a_def env_b_def)
  have same: "same_content (new_checksum ?b) (new_size ?b) row_a_hello"
             "same_content (new_checksum ?a) (new_size ?a) row_a_hello"
    by (simp_all add: route_defs example_defs)
  have named: "file_id row_a_hello \<noteq> [] \<and> filename row_a_hello \<noteq> []"
    by (simp add: row_a_hello_def)
  have table: "unique_content [row_a_hello] \<and> row_a_hello \<in> set [row_a_hello]"
    by (simp add: unique_content_def)
  from insertFile_idempotent [OF ok, of "[]" row_a_hello ?a "[row_a_hello]" row_a_hello ?b]
       first same named
  have again: "insertFile env_b [row_a_hello] ?b = ([row_a_hello], Some row_a_hello)"
    by simp
  from insertFile_idempotent [OF ok, of "[row_a_hello]" row_a_hello ?a "[row_a_hello]" row_a_hello ?a]
       same named table
  have "insertFile env_a [row_a_hello] ?a = ([row_a_hello], Some row_a_hello)"
    by simp
  with first again show ?thesis by simp
qed

lemma insertFile_among_insert_fails:
  assumes "\<not> db_fails e InsertFile"
    and "filter (same_content (new_checksum d) (new_size d)) tbl = []"
    and "insert_row e (others tbl) d = Inl err"
  shows "insertFile_among others e tbl d = (others tbl, None)"
  using assms by (simp add: insertFile_among_def)

text \<open>
  Claim C3, as stated: when the insert fails on the unique index of checksum and size
  because another transaction has inserted the matching row between the select and the
  insert, the operation selects again and returns the winner's row.  It does not: here the
  select finds nothing, the other instance commits its row, the insert fails on
  \<^verbatim>\<open>idx_files_checksum_size\<close>, and what \<^verbatim>\<open>insertFile\<close> returns is not the
  winner's row.
\<close>

theorem lost_race_counterexample:
  "filter (same_content (new_checksum (candidate env_b b_hello (hex_of_bytes (sha256 hello))))
                        (new_size (candidate env_b b_hello (hex_of_bytes (sha256 hello))))) [] = []
   \<and> insert_row env_b (winner_commits []) (candidate env_b b_hello (hex_of_bytes (sha256 hello)))
       = Inl (UniqueViolation ''idx_files_checksum_size'')
   \<and> snd (insertFile_among winner_commits env_b []
              (candidate env_b b_hello (hex_of_bytes (sha256 hello)))) \<noteq> Some row_a_hello"
  using storage_name_b by (simp add: route_defs example_defs winner_commits_def)

text \<open>
  Claim C3, amended.  When the insert fails on the unique index of checksum and size
  because another transaction has inserted the matching row between the select and the
  insert, \<^verbatim>\<open>insertFile\<close> does not select again: the \<^verbatim>\<open>catch\<close> returns
  \<^verbatim>\<open>null\<close>, the table is as the other transactions left it, and the upload route
  answers 409 with the error ``Failed to save file metadata or duplicate detected''.
\<close>

theorem lost_race_returns_null:
  assumes "\<not> db_fails e InsertFile"
    and "\<not> list_ex (same_content (new_checksum d) (new_size d)) tbl"
    and "insert_row e (others tbl) d = Inl (UniqueViolation ''idx_files_checksum_size'')"
  shows "insertFile_among others e tbl d = (others tbl, None)
       \<and> (file_length up \<le> maxSize \<and> files st = tbl
            \<and> candidate e up (hex_of_bytes (sha256 (file_bytes up))) = d
          \<longrightarrow> post_files_among others e st (Some (FormFile up)) =
                (st \<lparr> digests := digests st + 1, files := others tbl \<rparr>,
                 error_response ''Failed to save file metadata or duplicate detected'' 409))"
proof -
  from assms(2) have none: "filter (same_content (new_checksum d) (new_size d)) tbl = []"
    by (simp add: list_ex_iff filter_empty_conv)
  with assms have r: "insertFile_among others e tbl d = (others tbl, None)"
    by (intro insertFile_among_insert_fails) simp_all
  then show ?thesis
    by (auto simp: post_files_among_def calculateChecksum_def arrayBuffer_def)
qed

theorem lost_race_returns_null_witness:
  "insertFile_among winner_commits env_b []
       (candidate env_b b_hello (hex_of_bytes (sha256 hello))) = ([row_a_hello], None)
   \<and> post_files_among winner_commits env_b empty_state (Some (FormFile b_hello)) =
       (\<lparr> files = [row_a_hello], uploads = Map.empty, digests = 1 \<rparr>,
        error_response ''Failed to save file metadata or duplicate detected'' 409)"
proof -
  let ?d = "candidate env_b b_hello (hex_of_bytes (sha256 hello))"
  have ok: "\<not> db_fails env_b InsertFile" by (simp add: env_b_def)
  have none: "\<not> list_ex (same_content (new_checksum ?d) (new_size ?d)) []" by simp
  have clash: "insert_row env_b (winner_commits []) ?d
                 = Inl (UniqueViolation ''idx_files_checksum_size'')"
    using storage_name_b by (simp add: route_defs example_defs winner_commits_def)
  have upl: "file_length b_hello \<le> maxSize \<and> files empty_state = []
              \<and> candidate env_b b_hello (hex_of_bytes (sha256 (file_bytes b_hello))) = ?d"
    by (simp add: file_length_def maxSize_def b_hello_def empty_state_def hello_def)
  from lost_race_returns_null
         [where others = winner_commits and e = env_b and tbl = "[]" and d = ?d
            and up = b_hello and st = empty_state]
       ok none clash upl
  show ?thesis by (simp add: empty_state_def winner_commits_def)
qed

section \<open>The upload route\<close>

text \<open>
  Claim C6.  An upload of more than 100 MiB (104857600 bytes) is answered 413 ``File too
  large'' with the state as it was: nothing is stored and no digest has been computed.  An
  upload of at most 100 MiB is never answered 413; it passes the size test and its digest
  is computed.  (The empty upload passes the size test too; the table's
  \<^verbatim>\<open>CHECK (size > 0)\<close> then refuses its row and the answer is 409.)
\<close>

theorem upload_size_limit:
  "(104857600 < file_length up \<longrightarrow>
      post_files_among others e st (Some (FormFile up)) =
        (st, error_response ''File too large (max 100MB)'' 413))
   \<and> (file_length up \<le> 104857600 \<longrightarrow>
      status (snd (post_files_among others e st (Some (FormFile up)))) \<noteq> 413
      \<and> digests (fst (post_files_among others e st (Some (FormFile up)))) = digests st + 1)"
  by (auto simp: post_files_among_def maxSize_def calculateChecksum_def arrayBuffer_def
                 error_response_def uploaded_response_def Let_def
           split: prod.splits option.splits)

theorem upload_size_limit_witness:
  "post_files env_a state_a
      (Some (FormFile \<lparr> file_name = ''big.bin'', file_type = ''application/octet-stream'',
                        file_bytes = replicate 104857601 0 \<rparr>)) =
     (state_a, error_response ''File too large (max 100MB)'' 413)
   \<and> status (snd (post_files env_a state_a
        (Some (FormFile \<lparr> file_name = ''max.bin'', file_type = ''application/octet-stream'',
                          file_bytes = replicate 104857600 0 \<rparr>)))) \<noteq> 413"
  using upload_size_limit [of "\<lparr> file_name = ''big.bin'', file_type = ''application/octet-stream'',
                        file_bytes = replicate 104857601 0 \<rparr>" "\<lambda>tbl. tbl" env_a state_a]
        upload_size_limit [of "\<lparr> file_name = ''max.bin'', file_type = ''application/octet-stream'',
                        file_bytes = replicate 104857600 0 \<rparr>" "\<lambda>tbl. tbl" env_a state_a]
  by (simp add: post_files_def file_length_def)

text \<open>
  The empty upload: no row of a table that meets \<^verbatim>\<open>CHECK (size > 0)\<close> has its
  size, and the insert is refused.
\<close>

lemma insert_row_empty: "new_size d = 0 \<Longrightarrow> \<exists>err. insert_row e tbl d = Inl err"
  by (auto simp: insert_row_def split: option.splits)

lemma empty_upload_refused:
  assumes "file_bytes up = []" and "list_all (\<lambda>r. 0 < file_size r) (files st)"
  shows "snd (post_files e st (Some (FormFile up))) =
           error_response ''Failed to save file metadata or duplicate detected'' 409"
proof -
  let ?d = "candidate e up (hex_of_bytes (sha256 (file_bytes up)))"
  have z: "new_size ?d = 0" using assms(1) by (simp add: candidate_def file_length_def)
  from assms(2) have "filter (same_content (new_checksum ?d) (new_size ?d)) (files st) = []"
    unfolding z by (auto simp: filter_empty_conv same_content_def list_all_iff)
  moreover obtain err where "insert_row e (files st) ?d = Inl err"
    using insert_row_empty [OF z] by blast
  ultimately have "snd (insertFile e (files st) ?d) = None"
    by (simp add: insertFile_def insertFile_among_def)
  then show ?thesis
    using assms(1)
    by (cases "insertFile e (files st) ?d")
       (simp add: post_files_def insertFile_def post_files_among_def calculateChecksum_def
                  arrayBuffer_def file_length_def maxSize_def)
qed

text \<open>What the upload route does with content that is already stored.\<close>

lemma post_files_duplicate:
  assumes "file_length up \<le> maxSize"
    and "\<not> db_fails e InsertFile"
    and "unique_content (files st)" and "r \<in> set (files st)"
    and "checksum r = hex_of_bytes (sha256 (file_bytes up))" and "file_size r = file_length up"
    and "file_id r \<noteq> []" and "filename r \<noteq> []"
    and "\<not> write_fails e"
  shows "post_files e st (Some (FormFile up)) =
           (st \<lparr> digests := digests st + 1, files := files st,
                 uploads := (uploads st)(''./uploads/'' @ storage_name e up \<mapsto> file_bytes up) \<rparr>,
            uploaded_response up (hex_of_bytes (sha256 (file_bytes up))) r)"
proof -
  let ?d = "candidate e up (hex_of_bytes (sha256 (file_bytes up)))"
  have "same_content (new_checksum ?d) (new_size ?d) r"
    using assms(5,6) by (simp add: same_content_def candidate_def)
  with assms have "insertFile e (files st) ?d = (files st, Some r)"
    by (intro insertFile_existing) simp_all
  with assms(1,9) show ?thesis
    by (simp add: post_files_def insertFile_def post_files_among_def calculateChecksum_def
                  arrayBuffer_def)
qed

text \<open>
  Claim C1 says that an upload whose checksum and size already have a row writes no blob
  and is answered with that row tagged \<^verbatim>\<open>duplicate = true\<close>.  The route does
  otherwise.  After \<^verbatim>\<open>a.txt\<close> with the bytes of \<^verbatim>\<open>hello\<close>, the upload of
  \<^verbatim>\<open>b.txt\<close> with the same bytes leaves the table as it is and is answered 201 with the
  id and the time of the stored row, but it writes the bytes a second time, under the
  fresh storage name that no row refers to, and its answer has no field
  \<^verbatim>\<open>duplicate\<close>.
\<close>

theorem duplicate_upload_writes_blob:
  "fst (post_files env_a empty_state (Some (FormFile a_hello))) = state_a
   \<and> post_files env_b state_a (Some (FormFile b_hello)) =
       (\<lparr> files = [row_a_hello],
          uploads = [''./uploads/1700000000000_k3x9qa_a.txt'' \<mapsto> hello,
                     ''./uploads/1700000000500_zz11aa_b.txt'' \<mapsto> hello],
          digests = 2 \<rparr>,
        uploaded_response b_hello (hex_of_bytes (sha256 hello)) row_a_hello)
   \<and> uploads state_a ''./uploads/1700000000500_zz11aa_b.txt'' = None
   \<and> json_field (body (uploaded_response b_hello (hex_of_bytes (sha256 hello)) row_a_hello))
         ''duplicate'' = None"
  using storage_name_b first_upload
  by (simp add: route_defs example_defs json_field_def)

section \<open>Failure of the blob write\<close>

text \<open>
  What the route does when the write fails and the database answers: \<^verbatim>\<open>deleteFile\<close>
  is called with the name of the upload, so every row of that name goes, and the rows of
  other names stay.
\<close>

lemma post_files_compensation:
  assumes "file_length up \<le> maxSize"
    and "insertFile e (files st) (candidate e up (hex_of_bytes (sha256 (file_bytes up))))
           = (tbl, Some r)"
    and "write_fails e" and "\<not> db_fails e DeleteFile"
    and "list_ex (\<lambda>x. original_name x = file_name up) tbl"
  shows "post_files e st (Some (FormFile up)) =
           (st \<lparr> digests := digests st + 1,
                 files := filter (\<lambda>x. original_name x \<noteq> file_name up) tbl \<rparr>,
            error_response ''Failed to save file to disk'' 500)"
  using assms post_files_write_fails [of up "\<lambda>tbl. tbl" e st tbl r]
  by (simp add: post_files_def insertFile_def deleteFile_found)

text \<open>
  Claim C4 says that after a failed blob write the compensation deletes the row just
  inserted and no other, a row of the same display name included.  The answer is the 500
  of the claim and no row of the new content remains, but the delete goes by display name:
  with \<^verbatim>\<open>a.txt\<close> (the bytes of \<^verbatim>\<open>hello\<close>) stored, an upload of \<^verbatim>\<open>a.txt\<close> with
  the bytes of \<^verbatim>\<open>hi\<close> whose write fails leaves the table empty.  The row of the
  first upload is gone and its blob is still in the upload directory.
\<close>

theorem compensation_deletes_namesake:
  "fst (post_files env_a empty_state (Some (FormFile a_hello))) = state_a
   \<and> files state_a = [row_a_hello]
   \<and> post_files env_b_disk_fails state_a (Some (FormFile a_hi)) =
       (\<lparr> files = [],
          uploads = [''./uploads/1700000000000_k3x9qa_a.txt'' \<mapsto> hello],
          digests = 2 \<rparr>,
        error_response ''Failed to save file to disk'' 500)"
  using storage_name_a_hi first_upload
  by (simp add: route_defs example_defs env_b_disk_fails_def storage_name_def)

text \<open>
  Claim C5, as stated: when the blob write fails and the compensating delete fails as
  well, the upload is answered with a failure of its own kind, distinct from the answer to
  a failed write.  It is not: the row stays in the table with no blob behind it, and the
  answer is the 500 ``Failed to save file to disk'' that the same upload gets when the
  compensation succeeds.
\<close>

theorem orphan_counterexample:
  "write_fails env_disk_and_delete_fail
   \<and> deleteFile env_disk_and_delete_fail [row_a_hello] ''a.txt'' = ([row_a_hello], False)
   \<and> post_files env_disk_and_delete_fail empty_state (Some (FormFile a_hello))
       = (\<lparr> files = [row_a_hello], uploads = Map.empty, digests = 1 \<rparr>,
          error_response ''Failed to save file to disk'' 500)
   \<and> snd (post_files env_disk_fails empty_state (Some (FormFile a_hello)))
       = error_response ''Failed to save file to disk'' 500"
  using storage_name_a
  by (simp add: route_defs example_defs env_disk_fails_def env_disk_and_delete_fail_def
                storage_name_def)

text \<open>
  Claim C5, amended.  When the blob write of an upload fails and the compensating
  \<^verbatim>\<open>deleteFile\<close> fails as well, the route does not read the result of the delete: the
  row that \<^verbatim>\<open>insertFile\<close> returned stays in the table, nothing is written to the
  upload directory, and the answer is the same 500 ``Failed to save file to disk'' as when
  the compensation succeeds.
\<close>

theorem failed_compensation_same_answer:
  assumes "file_length up \<le> maxSize"
    and "insertFile e (files st) (candidate e up (hex_of_bytes (sha256 (file_bytes up))))
           = (tbl, Some r)"
    and "write_fails e"
    and "\<not> snd (deleteFile e tbl (file_name up))"
  shows "post_files e st (Some (FormFile up)) =
           (st \<lparr> digests := digests st + 1, files := tbl \<rparr>,
            error_response ''Failed to save file to disk'' 500)
         \<and> r \<in> set tbl
         \<and> uploads (fst (post_files e st (Some (FormFile up)))) = uploads st
         \<and> snd (post_files (e \<lparr> db_fails := (\<lambda>c. False) \<rparr>) st (Some (FormFile up))) =
             error_response ''Failed to save file to disk'' 500"
proof -
  from assms(4) have "fst (deleteFile e tbl (file_name up)) = tbl"
    by (rule deleteFile_False)
  with assms have one: "post_files e st (Some (FormFile up)) =
           (st \<lparr> digests := digests st + 1, files := tbl \<rparr>,
            error_response ''Failed to save file to disk'' 500)"
    unfolding post_files_def insertFile_def
    using post_files_write_fails [of up "\<lambda>tbl. tbl" e st tbl r] by simp
  have two: "r \<in> set tbl"
    using assms(2)
    by (auto simp: insertFile_def insertFile_among_def split: if_splits list.splits sum.splits
             dest!: arg_cong [where f = set])
  from assms(2) have nf: "\<not> db_fails e InsertFile"
    by (auto simp: insertFile_def insertFile_among_def split: if_splits)
  let ?e = "e \<lparr> db_fails := (\<lambda>c. False) \<rparr>"
  have c: "candidate ?e up = candidate e up"
    by (simp add: candidate_def storage_name_def fun_eq_iff)
  have "insertFile ?e (files st) (candidate ?e up (hex_of_bytes (sha256 (file_bytes up))))
          = (tbl, Some r)"
    using assms(2) nf unfolding c
    by (simp add: insertFile_def insertFile_among_db_fails)
  with assms(1,3) have three:
    "snd (post_files ?e st (Some (FormFile up))) = error_response ''Failed to save file to disk'' 500"
    unfolding post_files_def insertFile_def
    using post_files_write_fails [of up "\<lambda>tbl. tbl" ?e st tbl r] by simp
  from one two three show ?thesis by simp
qed

theorem failed_compensation_same_answer_witness:
  "post_files env_disk_and_delete_fail empty_state (Some (FormFile a_hello))
       = (\<lparr> files = [row_a_hello], uploads = Map.empty, digests = 1 \<rparr>,
          error_response ''Failed to save file to disk'' 500)
   \<and> snd (post_files (env_disk_and_delete_fail \<lparr> db_fails := (\<lambda>c. False) \<rparr>) empty_state
         (Some (FormFile a_hello)))
       = error_response ''Failed to save file to disk'' 500"
proof -
  let ?e = "env_disk_and_delete_fail"
  have a: "file_length a_hello \<le> maxSize"
    by (simp add: file_length_def maxSize_def a_hello_def hello_def)
  have sn: "storage_name ?e a_hello = ''1700000000000_k3x9qa_a.txt''"
    using storage_name_a by (simp add: storage_name_def env_a_def env_disk_and_delete_fail_def)
  have b: "insertFile ?e (files empty_state)
             (candidate ?e a_hello (hex_of_bytes (sha256 (file_bytes a_hello))))
           = ([row_a_hello], Some row_a_hello)"
    using sn by (simp add: route_defs example_defs env_disk_and_delete_fail_def)
  have c: "write_fails ?e" by (simp add: env_disk_and_delete_fail_def)
  have d: "\<not> snd (deleteFile ?e [row_a_hello] (file_name a_hello))"
    by (simp add: deleteFile_def env_disk_and_delete_fail_def)
  from failed_compensation_same_answer [OF a b c d]
  show ?thesis by (simp add: empty_state_def)
qed

section \<open>Deletion\<close>

text \<open>
  Claim C8.  When no row has the display name, the delete route answers 404 ``File not
  found'' and the state is as it was: the table and the upload directory are unchanged.
\<close>

theorem delete_unknown_name:
  assumes "\<not> list_ex (\<lambda>r. original_name r = name) (files st)"
  shows "delete_files e st name = (st, error_response ''File not found'' 404)"
proof -
  from assms have "filter (\<lambda>r. original_name r = name) (files st) = []"
    by (simp add: list_ex_iff filter_empty_conv)
  then show ?thesis
    by (simp add: delete_files_def getFileByOriginalName_def newest_first_def)
qed

theorem delete_unknown_name_witness:
  "delete_files env_a state_a ''b.txt'' = (state_a, error_response ''File not found'' 404)"
  using delete_unknown_name [of "''b.txt''" state_a env_a]
  by (simp add: state_a_def row_a_hello_def)

text \<open>
  What the delete route does when a row of the name exists and the database answers:
  every row of that name goes, whatever becomes of \<^verbatim>\<open>rm\<close>, and the answer is 200.
\<close>

lemma delete_files_found:
  assumes "\<not> db_fails e GetFileByOriginalName" and "\<not> db_fails e DeleteFile"
    and "list_ex (\<lambda>r. original_name r = name) (files st)"
  shows "files (fst (delete_files e st name)) = filter (\<lambda>r. original_name r \<noteq> name) (files st)
       \<and> snd (delete_files e st name) =
           \<lparr> status = 200,
             body = JObject [(''message'', JString ''File deleted successfully''),
                             (''filename'', JString name)] \<rparr>"
proof -
  from getFileByOriginalName_found [OF assms(1,3)]
  obtain r where "getFileByOriginalName e (files st) name = Some r" by blast
  then show ?thesis
    using deleteFile_found [OF assms(2,3)] by (simp add: delete_files_def)
qed

text \<open>
  Claim C7 says that a delete removes exactly one row, the newest of the display name,
  that older rows of the name remain, and that a failed blob delete does not fail the
  delete.  The last part holds (\<open>delete_files_found\<close>).  The first does not: after two
  uploads named \<^verbatim>\<open>a.txt\<close> with different bytes, the delete of \<^verbatim>\<open>a.txt\<close> looks up
  the newer row for the path to remove, and then removes both rows from the table.  The
  blob of the older row stays in the upload directory with no row behind it.
\<close>

theorem delete_removes_every_namesake:
  "fst (post_files env_b (fst (post_files env_a empty_state (Some (FormFile a_hello))))
          (Some (FormFile a_hi))) = state_aa
   \<and> files state_aa = [row_a_hello, row_a_hi]
   \<and> getFileByOriginalName env_a (files state_aa) ''a.txt'' = Some row_a_hi
   \<and> delete_files env_a state_aa ''a.txt'' =
       (\<lparr> files = [],
          uploads = [''./uploads/1700000000000_k3x9qa_a.txt'' \<mapsto> hello],
          digests = 2 \<rparr>,
        \<lparr> status = 200,
          body = JObject [(''message'', JString ''File deleted successfully''),
                          (''filename'', JString ''a.txt'')] \<rparr>)"
  using first_upload second_upload
  by (simp add: route_defs example_defs fun_upd_twist)

section \<open>Search\<close>

text \<open>
  Claim C10.  A search returns at most 50 rows, whatever the number of rows that match:
  they are matches, in descending order of upload time, and when the query succeeds they
  are the \<open>min 50 n\<close> newest of the \<open>n\<close> matches, every match left out being no newer
  than every match returned.  The route answers with these rows and their count.
\<close>

theorem search_newest_fifty:
  "length (searchFiles e tbl q None) \<le> 50
   \<and> sorted (map (\<lambda>r. - uploaded_at r) (searchFiles e tbl q None))
   \<and> set (searchFiles e tbl q None) \<subseteq> set (filter (matches_query q) tbl)
   \<and> (\<not> db_fails e SearchFiles \<longrightarrow>
        length (searchFiles e tbl q None) = min 50 (length (filter (matches_query q) tbl))
        \<and> (\<forall>x\<in>set (searchFiles e tbl q None). \<forall>y\<in>set (filter (matches_query q) tbl).
              y \<notin> set (searchFiles e tbl q None) \<longrightarrow> uploaded_at y \<le> uploaded_at x))
   \<and> (q \<noteq> [] \<longrightarrow>
        get_search e st (Some q) =
          \<lparr> status = 200,
            body = JObject [(''files'', JArray (map search_entry (searchFiles e (files st) q None))),
                            (''count'', JNumber (int (length (searchFiles e (files st) q None)))),
                            (''query'', JString q)] \<rparr>)"
proof -
  let ?m = "filter (matches_query q) tbl"
  have a: "length (searchFiles e tbl q None) \<le> 50"
    by (simp add: searchFiles_def)
  have b: "sorted (map (\<lambda>r. - uploaded_at r) (searchFiles e tbl q None))"
    using sorted_newest_first [of ?m]
    by (simp add: searchFiles_def take_map [symmetric])
  have c: "set (searchFiles e tbl q None) \<subseteq> set ?m"
    using set_take_subset [of 50 "newest_first ?m"] by (auto simp: searchFiles_def set_newest_first)
  have d: "length (searchFiles e tbl q None) = min 50 (length ?m)" if "\<not> db_fails e SearchFiles"
    using that by (simp add: searchFiles_def newest_first_def min.commute)
  have f: "\<forall>x\<in>set (searchFiles e tbl q None). \<forall>y\<in>set ?m.
              y \<notin> set (searchFiles e tbl q None) \<longrightarrow> uploaded_at y \<le> uploaded_at x"
    if "\<not> db_fails e SearchFiles"
    using that take_newest [of _ 50 ?m] by (auto simp: searchFiles_def)
  have g: "get_search e st (Some q) =
          \<lparr> status = 200,
            body = JObject [(''files'', JArray (map search_entry (searchFiles e (files st) q None))),
                            (''count'', JNumber (int (length (searchFiles e (files st) q None)))),
                            (''query'', JString q)] \<rparr>" if "q \<noteq> []"
    using that by (simp add: get_search_def Let_def)
  from a b c d f g show ?thesis by blast
qed

lemma a_txt_matches: "original_name r = ''a.txt'' \<Longrightarrow> matches_query ''TXT'' r"
  by (simp add: matches_query_def ilike_def lower_def)

lemma fifty_one_match: "filter (matches_query ''TXT'') fifty_one_rows = fifty_one_rows"
  by (simp add: fifty_one_rows_def filter_map o_def a_txt_matches row_a_hello_def)

theorem search_newest_fifty_witness:
  "length (filter (matches_query ''TXT'') fifty_one_rows) = 51
   \<and> length (searchFiles env_a fifty_one_rows ''TXT'' None) = 50
   \<and> json_field (body (get_search env_a (state_a \<lparr> files := fifty_one_rows \<rparr>) (Some ''TXT'')))
        ''count'' = Some (JNumber 50)"
proof -
  have n: "length fifty_one_rows = 51" by (simp add: fifty_one_rows_def)
  have ok: "\<not> db_fails env_a SearchFiles" by (simp add: env_a_def)
  from search_newest_fifty [of env_a fifty_one_rows "''TXT''" "state_a \<lparr> files := fifty_one_rows \<rparr>"]
       n ok
  show ?thesis by (simp add: fifty_one_match json_field_def)
qed

end
